theory Spec2Isabelle
  imports Complex_Main "HOL-Library.Sublist"
begin

section \<open>Shader source preprocessing and shader objects of p5 (p5/opengl/shader.py)\<close>

text \<open>
  A Python \<open>str\<close> is modelled as a \<open>string\<close>: one \<open>char\<close> per code point, which covers
  the code points below 256. A \<open>bytes\<close> object is a list of \<open>char\<close> too, one per byte. A
  text decoded from bytes can hold any code point and is a list of numbers. Exceptions
  are values: every function that can raise returns a sum whose left injection is the
  exception raised.
\<close>

type_synonym bytes = "char list"

type_synonym codepoints = "nat list"

datatype exn =
  KeyError string
  | TypeError string
  | NameError string
  | IndexError string
  | ValueError string
  | UnicodeDecodeError bytes
  | ArgumentError string

subsection \<open>Strings\<close>

text \<open>\<open>needle in haystack\<close> on strings.\<close>

fun str_in :: "string \<Rightarrow> string \<Rightarrow> bool" where
  "str_in p [] = (p = [])"
| "str_in p (c # cs) = (prefix p (c # cs) \<or> str_in p cs)"

text \<open>\<open>s.split(d)\<close> for a one-character separator: never the empty list.\<close>

fun split_on :: "char \<Rightarrow> string \<Rightarrow> string list" where
  "split_on d [] = [[]]"
| "split_on d (c # cs) =
     (if c = d then [] # split_on d cs
      else (case split_on d cs of [] \<Rightarrow> [[c]] | w # ws \<Rightarrow> (c # w) # ws))"

text \<open>\<open>"{}".format(n)\<close> for an integer: its decimal digits, with a sign when negative.\<close>

definition digit_char :: "nat \<Rightarrow> char" where
  "digit_char d = char_of (48 + d)"

fun dec_digits :: "nat \<Rightarrow> string" where
  "dec_digits n =
     (if n < 10 then [digit_char n] else dec_digits (n div 10) @ [digit_char (n mod 10)])"

declare dec_digits.simps [simp del]

definition format_int :: "int \<Rightarrow> string" where
  "format_int i = (if i < 0 then CHR ''-'' # dec_digits (nat (- i)) else dec_digits (nat i))"

subsection \<open>Bytes\<close>

text \<open>The code points of a \<open>str\<close>, as a decoded text has them.\<close>

definition codepoints_of :: "string \<Rightarrow> codepoints" where
  "codepoints_of s = map of_char s"

text \<open>
  \<open>s.encode('utf-8')\<close> for code points below 256: one byte below 128, two from there on.
\<close>

definition utf8_encode :: "string \<Rightarrow> bytes" where
  "utf8_encode s =
     concat (map (\<lambda>c. let n = (of_char c :: nat)
                        in if n < 128 then [c]
                           else [char_of (192 + n div 64), char_of (128 + n mod 64)]) s)"

text \<open>
  \<open>b.decode('utf-8')\<close>, which is strict: \<open>None\<close> stands for \<open>UnicodeDecodeError\<close>. The
  bytes are given by their values. A lead byte from 194 on announces one, two or three
  continuation bytes in 128 to 191; the first of them is narrowed after the lead bytes
  224, 237, 240 and 244, which excludes overlong forms, surrogates and code points
  above 1114111.
\<close>

definition continuation :: "nat \<Rightarrow> bool" where
  "continuation b = (128 \<le> b \<and> b \<le> 191)"

definition second_byte_ok :: "nat \<Rightarrow> nat \<Rightarrow> bool" where
  "second_byte_ok b c =
     (if b = 224 then 160 \<le> c \<and> c \<le> 191
      else if b = 237 then 128 \<le> c \<and> c \<le> 159
      else if b = 240 then 144 \<le> c \<and> c \<le> 191
      else if b = 244 then 128 \<le> c \<and> c \<le> 143
      else continuation c)"

fun utf8_decode_values :: "nat list \<Rightarrow> codepoints option" where
  "utf8_decode_values [] = Some []"
| "utf8_decode_values (b # bs) =
     (if b < 128 then map_option ((#) b) (utf8_decode_values bs)
      else if 194 \<le> b \<and> b \<le> 223 then
        (case bs of
           c1 # rest \<Rightarrow>
             if continuation c1
             then map_option ((#) ((b - 192) * 64 + (c1 - 128))) (utf8_decode_values rest)
             else None
         | _ \<Rightarrow> None)
      else if 224 \<le> b \<and> b \<le> 239 then
        (case bs of
           c1 # c2 # rest \<Rightarrow>
             if second_byte_ok b c1 \<and> continuation c2
             then map_option ((#) ((b - 224) * 4096 + (c1 - 128) * 64 + (c2 - 128)))
                    (utf8_decode_values rest)
             else None
         | _ \<Rightarrow> None)
      else if 240 \<le> b \<and> b \<le> 244 then
        (case bs of
           c1 # c2 # c3 # rest \<Rightarrow>
             if second_byte_ok b c1 \<and> continuation c2 \<and> continuation c3
             then map_option
                    ((#) ((b - 240) * 262144 + (c1 - 128) * 4096 + (c2 - 128) * 64 + (c3 - 128)))
                    (utf8_decode_values rest)
             else None
         | _ \<Rightarrow> None)
      else None)"

definition utf8_decode :: "bytes \<Rightarrow> codepoints option" where
  "utf8_decode b = utf8_decode_values (map of_char b)"

text \<open>
  What C reads from a \<open>char\<close> pointer, and \<open>.value\<close> of a ctypes character buffer: the
  bytes before the first NUL.
\<close>

definition NUL :: char where
  "NUL = CHR 0x00"

definition c_string :: "bytes \<Rightarrow> bytes" where
  "c_string b = takeWhile (\<lambda>c. c \<noteq> NUL) b"

subsection \<open>The version table\<close>

definition GLSL_VERSIONS :: "string \<rightharpoonup> int" where
  "GLSL_VERSIONS = map_of
     [(''2.0'', 110), (''2.1'', 120), (''3.0'', 130), (''3.1'', 140),
      (''3.2'', 150), (''3.3'', 330), (''4.0'', 400), (''4.1'', 410),
      (''4.2'', 420), (''4.3'', 430), (''4.4'', 440), (''4.5'', 450)]"

subsection \<open>The two regular expressions\<close>

text \<open>
  The character class \<open>[0-9A-Z_a-z]\<close>, and \<open>\s\<close> of a Python 3 \<open>str\<close> pattern below
  code point 256: tab to carriage return, the four separators 28 to 31, space, NEL and
  the no-break space.
\<close>

definition is_word_char :: "char \<Rightarrow> bool" where
  "is_word_char c =
     (let n = (of_char c :: nat)
      in (48 \<le> n \<and> n \<le> 57) \<or> (65 \<le> n \<and> n \<le> 90) \<or> n = 95 \<or> (97 \<le> n \<and> n \<le> 122))"

definition is_space :: "char \<Rightarrow> bool" where
  "is_space c =
     (let n = (of_char c :: nat)
      in (9 \<le> n \<and> n \<le> 13) \<or> (28 \<le> n \<and> n \<le> 32) \<or> n = 133 \<or> n = 160)"

text \<open>
  \<open>re_id = "(?<![0-9A-Z_a-z])({})(?![0-9A-Z_a-z]|\\s*\\()"\<close> and
  \<open>re_fn = "(?<![0-9A-Z_a-z])({})(?=\\s*\\()"\<close>; the braces take the search string,
  alternatives separated by \<open>|\<close>.
\<close>

datatype regex = re_id | re_fn

text \<open>\<open>\s*\(\<close> at the head of the text: \<open>\s*\<close> is greedy and a parenthesis is no space.\<close>

definition paren_ahead :: "string \<Rightarrow> bool" where
  "paren_ahead s = (case dropWhile is_space s of [] \<Rightarrow> False | c # _ \<Rightarrow> c = CHR ''('')"

definition word_ahead :: "string \<Rightarrow> bool" where
  "word_ahead s = (case s of [] \<Rightarrow> False | c # _ \<Rightarrow> is_word_char c)"

fun lookahead :: "regex \<Rightarrow> string \<Rightarrow> bool" where
  "lookahead re_id s = (\<not> (word_ahead s \<or> paren_ahead s))"
| "lookahead re_fn s = paren_ahead s"

definition lookbehind :: "char option \<Rightarrow> bool" where
  "lookbehind prev = (case prev of None \<Rightarrow> True | Some p \<Rightarrow> \<not> is_word_char p)"

text \<open>
  A match of the pattern at the head of \<open>s\<close>, where \<open>prev\<close> is the character before it
  in the text (none at the start): the first alternative, in the order written, that is
  a prefix of \<open>s\<close> and whose lookahead holds.
\<close>

definition match_at :: "regex \<Rightarrow> string \<Rightarrow> char option \<Rightarrow> string \<Rightarrow> string option" where
  "match_at regex search prev s =
     (if lookbehind prev
      then find (\<lambda>a. prefix a s \<and> lookahead regex (drop (length a) s))
             (split_on (CHR ''|'') search)
      else None)"

text \<open>
  \<open>re.sub(regex.format(search), replace, line)\<close>: the matches are found from left to
  right and do not overlap; the text between them is kept. Every alternative used by the
  program is non-empty, so a match consumes the character at its head.
\<close>

function re_sub_from :: "regex \<Rightarrow> string \<Rightarrow> string \<Rightarrow> char option \<Rightarrow> string \<Rightarrow> string" where
  "re_sub_from regex search replace prev [] = []"
| "re_sub_from regex search replace prev (c # cs) =
     (case match_at regex search prev (c # cs) of
        None \<Rightarrow> c # re_sub_from regex search replace (Some c) cs
      | Some a \<Rightarrow>
          replace @ re_sub_from regex search replace (Some (last (c # take (length a - 1) cs)))
                      (drop (length a - 1) cs))"
  by pat_completeness auto
termination
  by (relation "measure (\<lambda>(regex, search, replace, prev, s). length s)") auto

definition re_sub :: "regex \<Rightarrow> string \<Rightarrow> string \<Rightarrow> string \<Rightarrow> string" where
  "re_sub regex search replace line = re_sub_from regex search replace None line"

subsection \<open>preprocess_shader\<close>

type_synonym pattern = "regex \<times> string \<times> string"

definition vertex_patterns :: "pattern list" where
  "vertex_patterns =
     [(re_id, ''varying'', ''out''),
      (re_id, ''attribute'', ''in''),
      (re_id, ''texture'', ''texMap''),
      (re_fn, ''texture2DRect|texture2D|texture3D|textureCube'', ''texture'')]"

definition fragment_patterns :: "pattern list" where
  "fragment_patterns =
     [(re_id, ''varying|attribute'', ''in''),
      (re_id, ''texture'', ''texMap''),
      (re_fn, ''texture2DRect|texture2D|texture3D|textureCube'', ''texture''),
      (re_id, ''gl_FragColor'', ''_fragColor'')]"

text \<open>The inner loop: every pattern in turn, each on the result of the one before.\<close>

fun apply_patterns :: "pattern list \<Rightarrow> string \<Rightarrow> string" where
  "apply_patterns [] new_line = new_line"
| "apply_patterns ((regex, search, replace) # patterns) new_line =
     apply_patterns patterns (re_sub regex search replace new_line)"

text \<open>The outer loop: each rewritten line and a newline are appended to the output.\<close>

fun process_lines :: "pattern list \<Rightarrow> string \<Rightarrow> string list \<Rightarrow> string" where
  "process_lines patterns processed_shader [] = processed_shader"
| "process_lines patterns processed_shader (line # lines) =
     process_lines patterns
       (processed_shader @ apply_patterns patterns line @ ''\<newline>'') lines"

definition preprocess_shader :: "string \<Rightarrow> string \<Rightarrow> string \<Rightarrow> exn + string" where
  "preprocess_shader shader_source shader_type open_gl_version =
     (case GLSL_VERSIONS open_gl_version of
        None \<Rightarrow> Inl (KeyError open_gl_version)
      | Some target_glsl_version \<Rightarrow>
          if str_in ''#version'' shader_source then Inr shader_source
          else
            let processed_shader = ''#version '' @ format_int target_glsl_version @ ''\<newline>''
            in if target_glsl_version < 130 then Inr (processed_shader @ shader_source)
               else if shader_type = ''vertex''
               then Inr (process_lines vertex_patterns processed_shader
                           (split_on (CHR ''\<newline>'') shader_source))
               else if shader_type = ''fragment''
               then Inr (process_lines fragment_patterns
                           (processed_shader @ ''out vec4 _fragColor;'')
                           (split_on (CHR ''\<newline>'') shader_source))
               else Inl (TypeError (''Cannot preprocess '' @ shader_type @ '' shader.'')))"

subsection \<open>The graphics context\<close>

text \<open>
  The entry points of \<open>pyglet.gl\<close> that the module calls are parameters: a context is
  a state \<open>'g\<close> and one function per entry point, a query returning its answer and a
  command the next state. \<open>glGetShaderiv\<close> returns the integer it writes through its
  pointer, and \<open>glGetShaderInfoLog\<close>, called with the size of the buffer, the bytes it
  writes into the buffer. The values handed to the uniform setters have type \<open>'a\<close>, the
  values that the binding converts to \<open>GLfloat\<close>. \<open>glUniform4f\<close> is the entry point
  called with four values. What the binding does when it is called with another number
  of them depends on the calling convention of the platform, so it is the parameter
  \<open>glUniform4f_other\<close>, which may raise.
\<close>

record ('g, 'a) gl =
  glCreateShader :: "nat \<Rightarrow> 'g \<Rightarrow> nat \<times> 'g"
  glShaderSource :: "nat \<Rightarrow> bytes \<Rightarrow> 'g \<Rightarrow> 'g"
  glCompileShader :: "nat \<Rightarrow> 'g \<Rightarrow> 'g"
  glGetShaderiv :: "nat \<Rightarrow> nat \<Rightarrow> 'g \<Rightarrow> int"
  glGetShaderInfoLog :: "nat \<Rightarrow> int \<Rightarrow> 'g \<Rightarrow> bytes"
  glCreateProgram :: "'g \<Rightarrow> nat \<times> 'g"
  glGetUniformLocation :: "nat \<Rightarrow> string \<Rightarrow> 'g \<Rightarrow> int"
  glUniform4f :: "int \<Rightarrow> 'a \<Rightarrow> 'a \<Rightarrow> 'a \<Rightarrow> 'a \<Rightarrow> 'g \<Rightarrow> 'g"
  glUniform4f_other :: "int \<Rightarrow> 'a list \<Rightarrow> 'g \<Rightarrow> exn + 'g"
  glUniformMatrix4fv :: "int \<Rightarrow> nat \<Rightarrow> bool \<Rightarrow> 'a list \<Rightarrow> 'g \<Rightarrow> 'g"
  glAttachShader :: "nat \<Rightarrow> nat \<Rightarrow> 'g \<Rightarrow> 'g"
  glLinkProgram :: "nat \<Rightarrow> 'g \<Rightarrow> 'g"
  glUseProgram :: "nat \<Rightarrow> 'g \<Rightarrow> 'g"

definition GL_VERTEX_SHADER :: nat where
  "GL_VERTEX_SHADER = 35633"

definition GL_FRAGMENT_SHADER :: nat where
  "GL_FRAGMENT_SHADER = 35632"

definition GL_COMPILE_STATUS :: nat where
  "GL_COMPILE_STATUS = 35713"

definition GL_INFO_LOG_LENGTH :: nat where
  "GL_INFO_LOG_LENGTH = 35716"

definition GL_FALSE :: bool where
  "GL_FALSE = False"

subsection \<open>Uniform update functions\<close>

text \<open>
  \<open>_uvec4\<close> calls \<open>glUniform4f(uniform, *data)\<close>: the entry point itself for four
  values, and what the binding makes of the call for any other number of them.
  \<open>_umat4\<close> copies the matrix into an array of sixteen values, zero where the matrix has
  none, and more than sixteen is an \<open>IndexError\<close>.
\<close>

datatype uniform_function = uvec4 | umat4

fun call_uniform ::
  "('g, 'a::zero) gl \<Rightarrow> uniform_function \<Rightarrow> int \<Rightarrow> 'a list \<Rightarrow> 'g \<Rightarrow> exn + 'g" where
  "call_uniform api uvec4 uniform data g =
     (case data of
        [x, y, z, w] \<Rightarrow> Inr (glUniform4f api uniform x y z w g)
      | _ \<Rightarrow> glUniform4f_other api uniform data g)"
| "call_uniform api umat4 uniform matrix g =
     (let flattened = matrix
      in if 16 < length flattened then Inl (IndexError ''invalid index'')
         else Inr (glUniformMatrix4fv api uniform 1 GL_FALSE
                     (flattened @ replicate (16 - length flattened) 0) g))"

definition uniform_function_map :: "string \<rightharpoonup> uniform_function" where
  "uniform_function_map = map_of [(''vec4'', uvec4), (''mat4'', umat4)]"

record ShaderUniform =
  name :: string
  uid :: int
  ufunction :: uniform_function

subsection \<open>Shader\<close>

text \<open>
  The field \<open>_id\<close> is \<open>shader_id\<close>, \<open>None\<close> until \<open>compile\<close> assigns it. A method
  returns what it raised or returned together with the object and the context as it left
  them; \<open>compile\<close> also returns the texts it printed, and standard output takes every
  text.
\<close>

record Shader =
  kind :: string
  shader_id :: "nat option"
  source :: string

definition supported_shader_types :: "string \<rightharpoonup> nat" where
  "supported_shader_types =
     map_of [(''vertex'', GL_VERTEX_SHADER), (''fragment'', GL_FRAGMENT_SHADER)]"

definition Shader_init :: "string \<Rightarrow> string \<Rightarrow> string \<Rightarrow> bool \<Rightarrow> exn + Shader" where
  "Shader_init src knd version preprocess =
     (if preprocess
      then (case preprocess_shader src knd version of
              Inl e \<Rightarrow> Inl e
            | Inr processed \<Rightarrow> Inr \<lparr>kind = knd, shader_id = None, source = processed\<rparr>)
      else Inr \<lparr>kind = knd, shader_id = None, source = src\<rparr>)"

text \<open>The defaults of the constructor: \<open>version='2.0'\<close> and \<open>preprocess=True\<close>.\<close>

definition Shader_init_default :: "string \<Rightarrow> string \<Rightarrow> exn + Shader" where
  "Shader_init_default src knd = Shader_init src knd ''2.0'' True"

text \<open>
  \<open>create_string_buffer(n)\<close> followed by \<open>glGetShaderInfoLog\<close> on it: \<open>n\<close> zero bytes,
  the front of them overwritten by what the context writes, which is at most \<open>n\<close>
  bytes.
\<close>

definition filled_buffer :: "nat \<Rightarrow> bytes \<Rightarrow> bytes" where
  "filled_buffer n written = take n (written @ replicate n NUL)"

text \<open>
  The debug branch of \<open>compile\<close>, lines 188 to 207: the two queries, the buffer, which
  \<open>create_string_buffer\<close> refuses with \<open>ValueError\<close> for a negative size, the strict
  decoding of the buffer's value, and the two \<open>print\<close> calls for a log that is not empty.
  It returns what it raised or returned and the texts it printed.
\<close>

definition read_log ::
  "('g, 'a) gl \<Rightarrow> Shader \<Rightarrow> nat \<Rightarrow> 'g \<Rightarrow> (exn + unit) \<times> codepoints list" where
  "read_log api self i g =
     (let status_code = glGetShaderiv api i GL_COMPILE_STATUS g;
          log_size = glGetShaderiv api i GL_INFO_LOG_LENGTH g
      in if log_size < 0
         then (Inl (ValueError (''Array length must be >= 0, not '' @ format_int log_size)), [])
         else
           (let log_buffer = filled_buffer (nat log_size) (glGetShaderInfoLog api i log_size g)
            in case utf8_decode (c_string log_buffer) of
                 None \<Rightarrow> (Inl (UnicodeDecodeError (c_string log_buffer)), [])
               | Some log_message \<Rightarrow>
                   if 0 < length log_message
                   then (Inr (), [codepoints_of (source self), log_message])
                   else (Inr (), [])))"

text \<open>
  \<open>compile\<close>: the handle is assigned as soon as \<open>glCreateShader\<close> has returned; the
  source goes to the context as the C string of its UTF-8 bytes.
\<close>

definition compile ::
  "('g, 'a) gl \<Rightarrow> bool \<Rightarrow> Shader \<Rightarrow> 'g
     \<Rightarrow> (exn + unit) \<times> Shader \<times> 'g \<times> codepoints list" where
  "compile api debug self g =
     (case supported_shader_types (kind self) of
        None \<Rightarrow> (Inl (KeyError (kind self)), self, g, [])
      | Some shader_type \<Rightarrow>
          (case glCreateShader api shader_type g of
             (i, g1) \<Rightarrow>
               let self1 = self\<lparr>shader_id := Some i\<rparr>;
                   src = c_string (utf8_encode (source self1));
                   g2 = glShaderSource api i src g1;
                   g3 = glCompileShader api i g2
               in if debug
                  then (case read_log api self1 i g3 of
                          (result, printed) \<Rightarrow> (result, self1, g3, printed))
                  else (Inr (), self1, g3, [])))"

text \<open>The module sets \<open>debug = True\<close>.\<close>

definition debug :: bool where
  "debug = True"

text \<open>The property \<open>sid\<close>: \<open>if self._id\<close> is false for \<open>None\<close> and for the handle 0.\<close>

definition sid :: "Shader \<Rightarrow> exn + nat" where
  "sid self =
     (case shader_id self of
        None \<Rightarrow> Inl (NameError ''Shader hasn't been created yet.'')
      | Some i \<Rightarrow> if i \<noteq> 0 then Inr i else Inl (NameError ''Shader hasn't been created yet.''))"

subsection \<open>ShaderProgram\<close>

record ShaderProgram =
  program_id :: nat
  uniforms :: "string \<rightharpoonup> ShaderUniform"

definition ShaderProgram_init :: "('g, 'a) gl \<Rightarrow> 'g \<Rightarrow> ShaderProgram \<times> 'g" where
  "ShaderProgram_init api g =
     (case glCreateProgram api g of
        (i, g1) \<Rightarrow> (\<lparr>program_id = i, uniforms = Map.empty\<rparr>, g1))"

definition pid :: "ShaderProgram \<Rightarrow> nat" where
  "pid self = program_id self"

definition add_uniform ::
  "('g, 'a) gl \<Rightarrow> ShaderProgram \<Rightarrow> string \<Rightarrow> string \<Rightarrow> 'g
     \<Rightarrow> (exn + unit) \<times> ShaderProgram \<times> 'g" where
  "add_uniform api self uniform_name dtype g =
     (case uniform_function_map dtype of
        None \<Rightarrow> (Inl (KeyError dtype), self, g)
      | Some uniform_function \<Rightarrow>
          (Inr (),
           self\<lparr>uniforms := (uniforms self)(uniform_name \<mapsto>
             \<lparr>name = uniform_name,
              uid = glGetUniformLocation api (pid self) uniform_name g,
              ufunction = uniform_function\<rparr>)\<rparr>,
           g))"

definition update_uniform ::
  "('g, 'a::zero) gl \<Rightarrow> ShaderProgram \<Rightarrow> string \<Rightarrow> 'a list \<Rightarrow> 'g
     \<Rightarrow> (exn + unit) \<times> ShaderProgram \<times> 'g" where
  "update_uniform api self uniform_name data g =
     (case uniforms self uniform_name of
        None \<Rightarrow> (Inl (KeyError uniform_name), self, g)
      | Some uniform \<Rightarrow>
          (case call_uniform api (ufunction uniform) (uid uniform) data g of
             Inl e \<Rightarrow> (Inl e, self, g)
           | Inr g1 \<Rightarrow> (Inr (), self, g1)))"

definition attach ::
  "('g, 'a) gl \<Rightarrow> ShaderProgram \<Rightarrow> Shader \<Rightarrow> 'g \<Rightarrow> (exn + unit) \<times> 'g" where
  "attach api self shader g =
     (case sid shader of
        Inl e \<Rightarrow> (Inl e, g)
      | Inr i \<Rightarrow> (Inr (), glAttachShader api (pid self) i g))"

definition link :: "('g, 'a) gl \<Rightarrow> ShaderProgram \<Rightarrow> 'g \<Rightarrow> 'g" where
  "link api self g = glLinkProgram api (pid self) g"

definition activate :: "('g, 'a) gl \<Rightarrow> ShaderProgram \<Rightarrow> 'g \<Rightarrow> 'g" where
  "activate api self g = glUseProgram api (pid self) g"

definition deactivate :: "('g, 'a) gl \<Rightarrow> ShaderProgram \<Rightarrow> 'g \<Rightarrow> 'g" where
  "deactivate api self g = glUseProgram api 0 g"

subsection \<open>A context that records its calls\<close>

text \<open>
  A concrete context for evaluating the methods: its state is the list of the commands
  it received, a created object gets the number of commands so far plus one as its
  handle, the compiler's log is the bytes \<open>logtext\<close>, reported with the length that
  counts its final NUL, or 0 when it is empty, and the location of a uniform is the one
  \<open>locs\<close> lists for its name, or -1. A call of \<open>glUniform4f\<close> with fewer than four values
  is refused and the values after the fourth are passed over.
\<close>

datatype 'a gl_call =
  CreateShader nat
  | ShaderSource nat bytes
  | CompileShader nat
  | CreateProgram
  | Uniform4f int 'a 'a 'a 'a
  | UniformMatrix4fv int nat bool "'a list"
  | AttachShader nat nat
  | LinkProgram nat
  | UseProgram nat

definition recording_gl :: "bytes \<Rightarrow> (string \<times> int) list \<Rightarrow> ('a gl_call list, 'a) gl" where
  "recording_gl logtext locs =
     \<lparr>glCreateShader = (\<lambda>t g. (Suc (length g), g @ [CreateShader t])),
      glShaderSource = (\<lambda>i s g. g @ [ShaderSource i s]),
      glCompileShader = (\<lambda>i g. g @ [CompileShader i]),
      glGetShaderiv = (\<lambda>i pname g.
        if pname = GL_INFO_LOG_LENGTH
        then (if logtext = [] then 0 else int (length logtext) + 1)
        else 1),
      glGetShaderInfoLog = (\<lambda>i n g.
        if n \<le> 0 then [] else take (nat n - 1) logtext @ [NUL]),
      glCreateProgram = (\<lambda>g. (Suc (length g), g @ [CreateProgram])),
      glGetUniformLocation = (\<lambda>p n g. case map_of locs n of None \<Rightarrow> - 1 | Some l \<Rightarrow> l),
      glUniform4f = (\<lambda>u x y z w g. g @ [Uniform4f u x y z w]),
      glUniform4f_other = (\<lambda>u data g.
        if length data < 4
        then Inl (TypeError (''this function takes at least 5 arguments ('' @
               format_int (1 + int (length data)) @ '' given)''))
        else Inr (g @ [Uniform4f u (data ! 0) (data ! 1) (data ! 2) (data ! 3)])),
      glUniformMatrix4fv = (\<lambda>u n t m g. g @ [UniformMatrix4fv u n t m]),
      glAttachShader = (\<lambda>p s g. g @ [AttachShader p s]),
      glLinkProgram = (\<lambda>p g. g @ [LinkProgram p]),
      glUseProgram = (\<lambda>p g. g @ [UseProgram p])\<rparr>"

subsection \<open>The output as the specification words it\<close>








section \<open>Properties\<close>

subsection \<open>Strings and the version table\<close>

lemma str_in_sublist: "str_in p s = sublist p s"
  by (induction s) (simp_all add: sublist_Cons_right)

lemma str_in_append: "str_in p (a @ p @ b)"
  by (simp add: str_in_sublist)




subsection \<open>Sources that carry a version\<close>

text \<open>
  C1, as the code has it: the label is looked up in the table before the source is
  inspected. For every label of the table, every stage and every source in which
  \<open>#version\<close> occurs anywhere, \<open>preprocess_shader\<close> returns the source unchanged.
\<close>

theorem versioned_source_unchanged:
  assumes "GLSL_VERSIONS v = Some t"
  shows "preprocess_shader (a @ ''#version'' @ b) stage v = Inr (a @ ''#version'' @ b)"
  using assms str_in_append [of "''#version''" a b] by (simp add: preprocess_shader_def)

theorem versioned_source_unchanged_witness:
  "GLSL_VERSIONS ''3.3'' = Some 330 \<and>
   preprocess_shader (''// x '' @ ''#version'' @ '' 120'') ''geometry'' ''3.3''
     = Inr (''// x '' @ ''#version'' @ '' 120'')"
proof -
  have h: "GLSL_VERSIONS ''3.3'' = Some 330" by (simp add: GLSL_VERSIONS_def)
  show ?thesis
    using h versioned_source_unchanged
      [OF h, where a = "''// x ''" and b = "'' 120''" and stage = "''geometry''"]
    by simp
qed

text \<open>
  C1 as stated, for every label: with the label \<open>9.9\<close>, which the table does not have, a
  source that carries a version is not returned; the lookup raises \<open>KeyError\<close>.
\<close>

theorem versioned_source_unknown_label:
  "str_in ''#version'' ''#version 120'' \<and>
   preprocess_shader ''#version 120'' ''vertex'' ''9.9'' = Inl (KeyError ''9.9'')"
  by (simp add: preprocess_shader_def GLSL_VERSIONS_def)

subsection \<open>Targets below 130\<close>



subsection \<open>The fragment example\<close>

text \<open>
  C3: the fragment source of the example, for the label \<open>4.1\<close>. The output has the
  declaration \<open>out vec4 _fragColor;\<close> after the version line, \<open>texMap\<close> for the variable
  \<open>texture\<close> where it is declared and where it is used, the call \<open>texture(...)\<close> for
  \<open>texture2D(...)\<close> and \<open>_fragColor\<close> for \<open>gl_FragColor\<close>.
\<close>

theorem fragment_rewrite_example:
  "preprocess_shader
     ''varying vec4 texture; void main(){ gl_FragColor = texture2D(texture); }''
     ''fragment'' ''4.1''
   = Inr ''#version 410\<newline>out vec4 _fragColor;in vec4 texMap; void main(){ _fragColor = texture(texMap); }\<newline>''"
  by code_simp

subsection \<open>Labels the table does not have\<close>

text \<open>
  C6: a label absent from the table makes \<open>preprocess_shader\<close> raise \<open>KeyError\<close> for
  every source and stage, and the constructor that called it raises the same.
\<close>

theorem unknown_version_fails:
  assumes "GLSL_VERSIONS v = None"
  shows "preprocess_shader src stage v = Inl (KeyError v)
       \<and> Shader_init src stage v True = Inl (KeyError v)"
  using assms by (simp add: preprocess_shader_def Shader_init_def)

theorem unknown_version_fails_witness:
  "GLSL_VERSIONS ''9.9'' = None
   \<and> preprocess_shader ''void main(){}'' ''vertex'' ''9.9'' = Inl (KeyError ''9.9'')
   \<and> Shader_init ''void main(){}'' ''vertex'' ''9.9'' True = Inl (KeyError ''9.9'')"
proof -
  have h: "GLSL_VERSIONS ''9.9'' = None" by (simp add: GLSL_VERSIONS_def)
  show ?thesis using h unknown_version_fails [OF h] by simp
qed

subsection \<open>Targets from 130 on\<close>






















subsection \<open>Stages other than vertex and fragment\<close>

text \<open>
  C5, as the code has it: for a source without \<open>#version\<close> and a stage that is neither
  vertex nor fragment, \<open>preprocess_shader\<close> with the label \<open>3.3\<close> raises \<open>TypeError\<close>, and
  so does the constructor that preprocesses with that label.
\<close>

theorem unsupported_stage_fails:
  assumes "stage \<noteq> ''vertex''" and "stage \<noteq> ''fragment''" and "\<not> str_in ''#version'' src"
  shows "preprocess_shader src stage ''3.3''
           = Inl (TypeError (''Cannot preprocess '' @ stage @ '' shader.''))
       \<and> Shader_init src stage ''3.3'' True
           = Inl (TypeError (''Cannot preprocess '' @ stage @ '' shader.''))"
  using assms by (simp add: preprocess_shader_def Shader_init_def GLSL_VERSIONS_def)

theorem unsupported_stage_fails_witness:
  "preprocess_shader ''void main(){}'' ''geometry'' ''3.3''
     = Inl (TypeError ''Cannot preprocess geometry shader.'')
   \<and> Shader_init ''void main(){}'' ''geometry'' ''3.3'' True
     = Inl (TypeError ''Cannot preprocess geometry shader.'')"
proof -
  have h1: "''geometry'' \<noteq> ''vertex''" by simp
  have h2: "''geometry'' \<noteq> ''fragment''" by simp
  have h3: "\<not> str_in ''#version'' ''void main(){}''" by simp
  show ?thesis using unsupported_stage_fails [OF h1 h2 h3] by simp
qed

text \<open>
  C5 as stated, for every source: a geometry source that carries a version is returned
  as it is, and nothing is raised.
\<close>

theorem unsupported_stage_versioned_source:
  "preprocess_shader ''#version 330'' ''geometry'' ''3.3'' = Inr ''#version 330''"
  by (simp add: preprocess_shader_def GLSL_VERSIONS_def)

subsection \<open>The recording context at work\<close>


lemma c_string_ascii_main: "c_string (utf8_encode ''void main(){'') = ''void main(){''"
  by (simp add: utf8_encode_def c_string_def NUL_def)

lemma recording_gl_shader [simp]:
  "glCreateShader (recording_gl logtext locs) t g = (Suc (length g), g @ [CreateShader t])"
  "glShaderSource (recording_gl logtext locs) i b g = g @ [ShaderSource i b]"
  "glCompileShader (recording_gl logtext locs) i g = g @ [CompileShader i]"
  by (simp_all add: recording_gl_def)

lemma recording_gl_log:
  "glGetShaderiv (recording_gl logtext locs) i GL_INFO_LOG_LENGTH g
     = (if logtext = [] then 0 else int (length logtext) + 1)"
  "glGetShaderInfoLog (recording_gl logtext locs) i n g
     = (if n \<le> 0 then [] else take (nat n - 1) logtext @ [NUL])"
  by (simp_all add: recording_gl_def)


lemma read_log_undecodable:
  "read_log (recording_gl [CHR ''c'', CHR ''a'', CHR ''f'', CHR 0xE9] locs) s i g
     = (Inl (UnicodeDecodeError [CHR ''c'', CHR ''a'', CHR ''f'', CHR 0xE9]), [])"
  by (simp add: read_log_def recording_gl_log filled_buffer_def c_string_def utf8_decode_def
      NUL_def)


subsection \<open>The handle of a shader\<close>






subsection \<open>The compiler's log\<close>

text \<open>
  On a supported stage, with a log length that is not negative and a log that decodes,
  \<open>compile\<close> returns; with \<open>debug\<close> set and a decoded log that is not empty it has
  printed the source and the log, and otherwise nothing.
\<close>

lemma compile_reports_decoded_log:
  assumes "supported_shader_types (kind s) = Some ty"
    and "glCreateShader api ty g = (h, g1)"
    and "g3 = glCompileShader api h (glShaderSource api h (c_string (utf8_encode (source s))) g1)"
    and "glGetShaderiv api h GL_INFO_LOG_LENGTH g3 = n" and "0 \<le> n"
    and "utf8_decode (c_string (filled_buffer (nat n) (glGetShaderInfoLog api h n g3)))
           = Some log_message"
  shows "compile api dbg s g
     = (Inr (), s\<lparr>shader_id := Some h\<rparr>, g3,
        if dbg \<and> log_message \<noteq> [] then [codepoints_of (source s), log_message] else [])"
  using assms by (simp add: compile_def read_log_def Let_def)

text \<open>
  C9 at a log that is not UTF-8, the four bytes of \<open>caf\<close> and 233: \<open>compile\<close> with the
  module's \<open>debug\<close> has assigned the handle, raises \<open>UnicodeDecodeError\<close> from the
  decoding at line 196 and has printed nothing.
\<close>

theorem compile_raises_on_undecodable_log:
  "compile (recording_gl [CHR ''c'', CHR ''a'', CHR ''f'', CHR 0xE9] []
              :: (real gl_call list, real) gl) debug
       \<lparr>kind = ''fragment'', shader_id = None, source = ''void main(){''\<rparr> []
     = (Inl (UnicodeDecodeError [CHR ''c'', CHR ''a'', CHR ''f'', CHR 0xE9]),
        \<lparr>kind = ''fragment'', shader_id = Some 1, source = ''void main(){''\<rparr>,
        [CreateShader 35632, ShaderSource 1 ''void main(){'', CompileShader 1], [])"
  by (simp add: compile_def read_log_undecodable c_string_ascii_main supported_shader_types_def
      GL_FRAGMENT_SHADER_def debug_def Let_def)

subsection \<open>Uniforms\<close>

text \<open>
  C8: after \<open>add_uniform\<close> of \<open>fill_color\<close> with the type \<open>vec4\<close>, the binding holds the
  location the context gave at that moment, and \<open>update_uniform\<close> with four values calls
  \<open>glUniform4f\<close> with that location and those values, in any later state of the context;
  \<open>update_uniform\<close> of a name that has no binding raises \<open>KeyError\<close>.
\<close>

theorem uniform_round_trip:
  assumes "add_uniform api p ''fill_color'' ''vec4'' g = (r, p1, g1)"
    and "uniforms p1 missing = None"
  shows "r = Inr () \<and> g1 = g
       \<and> map_option uid (uniforms p1 ''fill_color'')
           = Some (glGetUniformLocation api (pid p) ''fill_color'' g)
       \<and> update_uniform api p1 ''fill_color'' [x, y, z, w] g2
           = (Inr (), p1,
              glUniform4f api (glGetUniformLocation api (pid p) ''fill_color'' g) x y z w g2)
       \<and> update_uniform api p1 missing data g2 = (Inl (KeyError missing), p1, g2)"
  using assms
  by (auto simp: add_uniform_def update_uniform_def uniform_function_map_def)

theorem uniform_round_trip_witness:
  "update_uniform (recording_gl [] [(''fill_color'', 3)])
       \<lparr>program_id = 1, uniforms = [''fill_color'' \<mapsto>
          \<lparr>name = ''fill_color'', uid = 3, ufunction = uvec4\<rparr>]\<rparr>
       ''fill_color'' [1, 0, 1 / 2, 1 :: real] [CreateProgram, UseProgram 1]
     = (Inr (),
        \<lparr>program_id = 1, uniforms = [''fill_color'' \<mapsto>
          \<lparr>name = ''fill_color'', uid = 3, ufunction = uvec4\<rparr>]\<rparr>,
        [CreateProgram, UseProgram 1, Uniform4f 3 1 0 (1 / 2) 1])
   \<and> update_uniform (recording_gl [] [(''fill_color'', 3)])
       \<lparr>program_id = 1, uniforms = [''fill_color'' \<mapsto>
          \<lparr>name = ''fill_color'', uid = 3, ufunction = uvec4\<rparr>]\<rparr>
       ''missing'' [1, 0, 1 / 2, 1 :: real] [CreateProgram, UseProgram 1]
     = (Inl (KeyError ''missing''),
        \<lparr>program_id = 1, uniforms = [''fill_color'' \<mapsto>
          \<lparr>name = ''fill_color'', uid = 3, ufunction = uvec4\<rparr>]\<rparr>,
        [CreateProgram, UseProgram 1])"
proof -
  let ?api = "recording_gl [] [(''fill_color'', 3)] :: (real gl_call list, real) gl"
  let ?p = "\<lparr>program_id = 1, uniforms = Map.empty\<rparr>"
  let ?p1 = "\<lparr>program_id = 1, uniforms = [''fill_color'' \<mapsto>
          \<lparr>name = ''fill_color'', uid = 3, ufunction = uvec4\<rparr>]\<rparr>"
  have h1: "add_uniform ?api ?p ''fill_color'' ''vec4'' [CreateProgram]
      = (Inr (), ?p1, [CreateProgram])"
    by (simp add: add_uniform_def uniform_function_map_def recording_gl_def pid_def)
  have h2: "uniforms ?p1 ''missing'' = None" by simp
  show ?thesis
    using uniform_round_trip [OF h1 h2, of 1 0 "1 / 2" 1 "[CreateProgram, UseProgram 1]"
        "[1, 0, 1 / 2, 1]"]
    by (simp add: recording_gl_def pid_def)
qed

text \<open>
  C10: \<open>add_uniform\<close> with a type that has no update function raises \<open>KeyError\<close> and
  leaves the program and the context as they were; \<open>update_uniform\<close> of a name that has
  no binding does the same; and \<open>update_uniform\<close> never changes the program, whatever it
  returns or raises.
\<close>

theorem failed_uniform_call_keeps_bindings:
  "(uniform_function_map dtype = None \<longrightarrow>
      add_uniform api p uniform_name dtype g = (Inl (KeyError dtype), p, g))
   \<and> (uniforms p uniform_name = None \<longrightarrow>
      update_uniform api p uniform_name data g = (Inl (KeyError uniform_name), p, g))
   \<and> fst (snd (update_uniform api p uniform_name data g)) = p"
  by (auto simp: add_uniform_def update_uniform_def split: option.splits sum.splits)

theorem failed_uniform_call_keeps_bindings_witness:
  "uniform_function_map ''vec3'' = None
   \<and> add_uniform (recording_gl [] [(''fill_color'', 3)] :: (real gl_call list, real) gl)
       \<lparr>program_id = 1, uniforms = [''fill_color'' \<mapsto>
          \<lparr>name = ''fill_color'', uid = 3, ufunction = uvec4\<rparr>]\<rparr>
       ''fill_color'' ''vec3'' [CreateProgram]
     = (Inl (KeyError ''vec3''),
        \<lparr>program_id = 1, uniforms = [''fill_color'' \<mapsto>
          \<lparr>name = ''fill_color'', uid = 3, ufunction = uvec4\<rparr>]\<rparr>,
        [CreateProgram])
   \<and> update_uniform (recording_gl [] [(''fill_color'', 3)])
       \<lparr>program_id = 1, uniforms = [''fill_color'' \<mapsto>
          \<lparr>name = ''fill_color'', uid = 3, ufunction = uvec4\<rparr>]\<rparr>
       ''missing'' [1, 0, 1 / 2, 1 :: real] [CreateProgram]
     = (Inl (KeyError ''missing''),
        \<lparr>program_id = 1, uniforms = [''fill_color'' \<mapsto>
          \<lparr>name = ''fill_color'', uid = 3, ufunction = uvec4\<rparr>]\<rparr>,
        [CreateProgram])"
proof -
  let ?api = "recording_gl [] [(''fill_color'', 3)] :: (real gl_call list, real) gl"
  let ?p1 = "\<lparr>program_id = 1, uniforms = [''fill_color'' \<mapsto>
          \<lparr>name = ''fill_color'', uid = 3, ufunction = uvec4\<rparr>]\<rparr>"
  have h1: "uniform_function_map ''vec3'' = None" by (simp add: uniform_function_map_def)
  have h2: "uniforms ?p1 ''missing'' = None" by simp
  show ?thesis
    using h1 h2
      failed_uniform_call_keeps_bindings
        [of "''vec3''" ?api ?p1 "''fill_color''" "[CreateProgram]"]
      failed_uniform_call_keeps_bindings
        [of "''vec3''" ?api ?p1 "''missing''" "[CreateProgram]" "[1, 0, 1 / 2, 1]"]
    by simp
qed

end
